theory Spec2Isabelle
  imports Main "HOL-Library.Sublist"
begin

section \<open>Python exceptions\<close>

text \<open>
  The exceptions that the modelled fragment of \<^verbatim>\<open>rteqc_api.py\<close> can meet. Each
  carries the text or the file name it is raised with. \<open>LibraryError\<close> stands for an
  exception raised inside a third-party parser or serialiser (pandas, json).
\<close>

datatype exn =
    ValueError string
  | KeyError string
  | FileNotFoundError string
  | NotADirectoryError string
  | IsADirectoryError string
  | AttributeError string
  | LibraryError string

section \<open>The file system\<close>

text \<open>
  The program only reads the file system. A node is a regular file with its contents or
  a directory with its entries, in the order in which the operating system lists them.
\<close>

datatype node = File string | Dir "(string \<times> node) list"

datatype errno = ENOENT | ENOTDIR

text \<open>
  Path lookup walks the components of an absolute path from the root. The cursor keeps
  the chain of parent directories, so that \<^verbatim>\<open>..\<close> steps back. An empty component
  (a doubled or trailing slash) and \<^verbatim>\<open>.\<close> stay where they are, and need a directory.
\<close>

type_synonym cursor = "node list \<times> node"

fun step :: "cursor \<Rightarrow> string \<Rightarrow> errno + cursor" where
  "step (anc, File c) name = Inl ENOTDIR"
| "step (anc, Dir es) name =
     (if name = [] \<or> name = ''.'' then Inr (anc, Dir es)
      else if name = ''..'' then
        (case anc of [] \<Rightarrow> Inr ([], Dir es) | p # ps \<Rightarrow> Inr (ps, p))
      else
        (case map_of es name of
           None \<Rightarrow> Inl ENOENT
         | Some n \<Rightarrow> Inr (Dir es # anc, n)))"

fun walk :: "cursor \<Rightarrow> string list \<Rightarrow> errno + cursor" where
  "walk cur [] = Inr cur"
| "walk cur (name # names) =
     (case step cur name of Inl e \<Rightarrow> Inl e | Inr cur' \<Rightarrow> walk cur' names)"

fun split_on :: "char \<Rightarrow> string \<Rightarrow> string list" where
  "split_on c [] = [[]]"
| "split_on c (x # xs) =
     (if x = c then [] # split_on c xs
      else (case split_on c xs of
              [] \<Rightarrow> [[x]]
            | w # ws \<Rightarrow> (x # w) # ws))"

text \<open>
  \<open>stat\<close> resolves an absolute path. Every path the program builds starts with
  \<^verbatim>\<open>BASEPATH\<close>, which is absolute, so the walk always starts at the root.
\<close>

definition stat :: "node \<Rightarrow> string \<Rightarrow> errno + node" where
  "stat root path =
     (case walk ([], root) (split_on CHR ''/'' path) of
        Inl e \<Rightarrow> Inl e
      | Inr cur \<Rightarrow> Inr (snd cur))"

text \<open>\<^verbatim>\<open>os.path.isfile\<close>: true for a regular file, false for anything else or on any error.\<close>

definition isfile :: "node \<Rightarrow> string \<Rightarrow> bool" where
  "isfile root path =
     (case stat root path of
        Inr (File c) \<Rightarrow> True
      | Inr (Dir es) \<Rightarrow> False
      | Inl e \<Rightarrow> False)"

text \<open>\<^verbatim>\<open>os.scandir\<close>: the entry names of a directory, in listing order.\<close>

definition scandir :: "node \<Rightarrow> string \<Rightarrow> errno + string list" where
  "scandir root path =
     (case stat root path of
        Inr (Dir es) \<Rightarrow> Inr (map fst es)
      | Inr (File c) \<Rightarrow> Inl ENOTDIR
      | Inl e \<Rightarrow> Inl e)"

text \<open>Opening a file for reading, as \<^verbatim>\<open>open(path)\<close> does inside a reader.\<close>

definition open_read :: "node \<Rightarrow> string \<Rightarrow> exn + string" where
  "open_read root path =
     (case stat root path of
        Inl ENOENT \<Rightarrow> Inl (FileNotFoundError path)
      | Inl ENOTDIR \<Rightarrow> Inl (NotADirectoryError path)
      | Inr (Dir es) \<Rightarrow> Inl (IsADirectoryError path)
      | Inr (File c) \<Rightarrow> Inr c)"

text \<open>
  The names an operating system puts in a directory are not empty and hold no slash.
\<close>

definition valid_name :: "string \<Rightarrow> bool" where
  "valid_name name = (name \<noteq> [] \<and> CHR ''/'' \<notin> set name)"

section \<open>\<^verbatim>\<open>os.path\<close> and \<^verbatim>\<open>glob\<close>\<close>

text \<open>\<^verbatim>\<open>posixpath.basename\<close>: what follows the last slash.\<close>

definition basename :: "string \<Rightarrow> string" where
  "basename p = rev (takeWhile (\<lambda>c. c \<noteq> CHR ''/'') (rev p))"

text \<open>\<^verbatim>\<open>posixpath.join\<close> of two parts.\<close>

definition path_join :: "string \<Rightarrow> string \<Rightarrow> string" where
  "path_join a b =
     (if b \<noteq> [] \<and> hd b = CHR ''/'' then b
      else if a = [] \<or> last a = CHR ''/'' then a @ b
      else a @ ''/'' @ b)"

text \<open>\<^verbatim>\<open>glob._ishidden\<close>: the name starts with a dot.\<close>

definition ishidden :: "string \<Rightarrow> bool" where
  "ishidden name = (name \<noteq> [] \<and> hd name = CHR ''.'')"

text \<open>
  \<^verbatim>\<open>glob._glob1(dirname, "*")\<close>: the listing of the directory, empty when the
  directory cannot be listed (the \<^verbatim>\<open>OSError\<close> is swallowed), without the hidden
  names. The pattern \<^verbatim>\<open>*\<close> matches every name that is left.
\<close>

definition glob1 :: "node \<Rightarrow> string \<Rightarrow> string list" where
  "glob1 root dirname =
     (case scandir root dirname of
        Inl e \<Rightarrow> []
      | Inr names \<Rightarrow> filter (\<lambda>x. \<not> ishidden x) names)"

text \<open>
  \<^verbatim>\<open>glob.glob(f"{dirname}/*")\<close> for a \<open>dirname\<close> without wildcard characters:
  every match joined to the directory name.
\<close>

definition glob_star :: "node \<Rightarrow> string \<Rightarrow> string list" where
  "glob_star root dirname = map (path_join dirname) (glob1 root dirname)"

section \<open>\<^verbatim>\<open>str.format\<close>\<close>

text \<open>
  The fragment of format strings that the program uses: literal text, the escapes
  \<^verbatim>\<open>{{\<close> and \<^verbatim>\<open>}}\<close>, and replacement fields \<^verbatim>\<open>{name}\<close> filled from keyword
  arguments. A lone brace is a \<^verbatim>\<open>ValueError\<close>, a missing keyword a \<^verbatim>\<open>KeyError\<close>.
  Substituted values are inserted as they are and never parsed again.
\<close>

datatype fmt_item = Lit string | Field string

definition cons_item :: "fmt_item \<Rightarrow> exn + fmt_item list \<Rightarrow> exn + fmt_item list" where
  "cons_item i r = (case r of Inl e \<Rightarrow> Inl e | Inr is \<Rightarrow> Inr (i # is))"

function parse_format :: "string \<Rightarrow> exn + fmt_item list" where
  "parse_format [] = Inr []"
| "parse_format (c # cs) =
     (if c = CHR ''{'' then
        (if cs \<noteq> [] \<and> hd cs = CHR ''{'' then
           cons_item (Lit ''{'') (parse_format (tl cs))
         else if CHR ''}'' \<notin> set cs then
           Inl (ValueError ''expected '}' before end of string'')
         else
           cons_item (Field (takeWhile (\<lambda>x. x \<noteq> CHR ''}'') cs))
             (parse_format (tl (dropWhile (\<lambda>x. x \<noteq> CHR ''}'') cs))))
      else if c = CHR ''}'' then
        (if cs \<noteq> [] \<and> hd cs = CHR ''}'' then
           cons_item (Lit ''}'') (parse_format (tl cs))
         else Inl (ValueError ''Single '}' encountered in format string''))
      else cons_item (Lit [c]) (parse_format cs))"
  by pat_completeness auto
termination
proof (relation "measure length")
  show "wf (measure length)" by simp
next
  fix c :: char and cs :: string
  assume "cs \<noteq> [] \<and> hd cs = CHR ''{''"
  then show "(tl cs, c # cs) \<in> measure length" by simp
next
  fix c :: char and cs :: string
  have "length (tl (dropWhile (\<lambda>x. x \<noteq> CHR ''}'') cs)) \<le> length cs"
    using length_dropWhile_le [of "\<lambda>x. x \<noteq> CHR ''}''" cs] by simp
  then show "(tl (dropWhile (\<lambda>x. x \<noteq> CHR ''}'') cs), c # cs) \<in> measure length"
    by simp
next
  fix c :: char and cs :: string
  assume "cs \<noteq> [] \<and> hd cs = CHR ''}''"
  then show "(tl cs, c # cs) \<in> measure length" by simp
next
  fix c :: char and cs :: string
  show "(cs, c # cs) \<in> measure length" by simp
qed

fun render :: "fmt_item list \<Rightarrow> (string \<times> string) list \<Rightarrow> exn + string" where
  "render [] kwargs = Inr []"
| "render (Lit s # is) kwargs =
     (case render is kwargs of Inl e \<Rightarrow> Inl e | Inr r \<Rightarrow> Inr (s @ r))"
| "render (Field name # is) kwargs =
     (case map_of kwargs name of
        None \<Rightarrow> Inl (KeyError name)
      | Some v \<Rightarrow> (case render is kwargs of Inl e \<Rightarrow> Inl e | Inr r \<Rightarrow> Inr (v @ r)))"

definition format :: "string \<Rightarrow> (string \<times> string) list \<Rightarrow> exn + string" where
  "format template kwargs =
     (case parse_format template of
        Inl e \<Rightarrow> Inl e
      | Inr is \<Rightarrow> render is kwargs)"

text \<open>How many replacement fields of a template carry a given name.\<close>

definition field_count :: "string \<Rightarrow> string \<Rightarrow> nat" where
  "field_count name template =
     (case parse_format template of
        Inl e \<Rightarrow> 0
      | Inr is \<Rightarrow> length (filter (\<lambda>i. i = Field name) is))"

section \<open>Constants of the program\<close>

definition BASEPATH :: string where
  "BASEPATH = ''/tmp/outputs/detections''"

definition CATALOG_FILENAME :: string where
  "CATALOG_FILENAME = ''{basepath}/{triggerID}/{triggerID}/output_out/catalog.csv''"

definition SOURCE_FILENAME :: string where
  "SOURCE_FILENAME =
     ''{basepath}/{triggerID}/{triggerID}/plotter_out/output_metrics_summary_file.csv''"

definition PLOT_FILENAME :: string where
  "PLOT_FILENAME = ''{basepath}/{triggerID}/{triggerID}/plotter_out/{plot_type}_latest.png''"

definition KNOWN_PLOT_TYPES :: "string list" where
  "KNOWN_PLOT_TYPES =
     [''Scaled_Magnitude_Comparison'',
      ''Aftershock_extent_depth_map'',
      ''catalog_RT'',
      ''catalog_templates'',
      ''confidence_ellipsoid'',
      ''confidence_ellipsoid_vertical'',
      ''focal_sphere'',
      ''Geometry_with_time'']"

section \<open>Trigger discovery\<close>

text \<open>
  The loop of \<^verbatim>\<open>get_triggers\<close> over the glob results, with the list \<open>triggers\<close>
  it appends to. The logging calls write to the log only and are left out.
\<close>

fun get_triggers_loop :: "node \<Rightarrow> string list \<Rightarrow> string list \<Rightarrow> exn + string list" where
  "get_triggers_loop root [] triggers = Inr triggers"
| "get_triggers_loop root (possible_trigger_dir # rest) triggers =
     (let triggerID = basename possible_trigger_dir in
      case format CATALOG_FILENAME
             [(''basepath'', BASEPATH), (''triggerID'', triggerID)] of
        Inl e \<Rightarrow> Inl e
      | Inr cat_file \<Rightarrow>
          if isfile root cat_file
          then get_triggers_loop root rest (triggers @ [triggerID])
          else get_triggers_loop root rest triggers)"

definition get_triggers :: "node \<Rightarrow> exn + string list" where
  "get_triggers root = get_triggers_loop root (glob_star root BASEPATH) []"

section \<open>What the specification names\<close>

text \<open>
  The three path templates as the specification writes them, and the trigger set as its
  sentence describes it: the immediate subdirectory names of the base directory for
  which the catalog path is an existing file.
\<close>

definition resolved_catalog_path :: "string \<Rightarrow> string \<Rightarrow> string" where
  "resolved_catalog_path base name =
     base @ ''/'' @ name @ ''/'' @ name @ ''/output_out/catalog.csv''"

definition resolved_source_path :: "string \<Rightarrow> string \<Rightarrow> string" where
  "resolved_source_path base name =
     base @ ''/'' @ name @ ''/'' @ name @ ''/plotter_out/output_metrics_summary_file.csv''"

definition resolved_plot_path :: "string \<Rightarrow> string \<Rightarrow> string \<Rightarrow> string" where
  "resolved_plot_path base name kind =
     base @ ''/'' @ name @ ''/'' @ name @ ''/plotter_out/'' @ kind @ ''_latest.png''"

definition has_catalog :: "node \<Rightarrow> string \<Rightarrow> bool" where
  "has_catalog root name = isfile root (resolved_catalog_path BASEPATH name)"

definition isdir :: "node \<Rightarrow> string \<Rightarrow> bool" where
  "isdir root path =
     (case stat root path of
        Inr (Dir es) \<Rightarrow> True
      | Inr (File c) \<Rightarrow> False
      | Inl e \<Rightarrow> False)"

definition listdir :: "node \<Rightarrow> string \<Rightarrow> string list" where
  "listdir root path = (case scandir root path of Inl e \<Rightarrow> [] | Inr names \<Rightarrow> names)"

definition subdirectory_names :: "node \<Rightarrow> string \<Rightarrow> string list" where
  "subdirectory_names root path =
     filter (\<lambda>name. isdir root (path @ ''/'' @ name)) (listdir root path)"

definition ListTriggers_spec :: "node \<Rightarrow> string list" where
  "ListTriggers_spec root = filter (has_catalog root) (subdirectory_names root BASEPATH)"

definition visible :: "string \<Rightarrow> bool" where
  "visible name = (\<not> ishidden name)"

definition entry_names_valid :: "node \<Rightarrow> string \<Rightarrow> bool" where
  "entry_names_valid root path = list_all valid_name (listdir root path)"

section \<open>Reading tables\<close>

text \<open>
  pandas and json are third-party libraries. What the program needs from them is taken
  as a parameter: the parser that \<^verbatim>\<open>pd.read_csv\<close> runs on the text of an opened file
  with its \<^verbatim>\<open>parse_dates\<close> argument, the serialiser
  \<^verbatim>\<open>DataFrame.to_json(index=False, orient='table')\<close>, and \<^verbatim>\<open>json.loads\<close>.
\<close>

record 'df library =
  read_csv_text :: "string \<Rightarrow> nat list \<Rightarrow> exn + 'df"
  to_json_table :: "'df \<Rightarrow> exn + string"
  json_loads :: "string \<Rightarrow> exn + unit"

text \<open>\<^verbatim>\<open>pd.read_csv(filepath_or_buffer=filename, parse_dates=...)\<close>: open, then parse.\<close>

definition read_csv :: "'df library \<Rightarrow> node \<Rightarrow> string \<Rightarrow> nat list \<Rightarrow> exn + 'df" where
  "read_csv lib root filename parse_dates =
     (case open_read root filename of
        Inl e \<Rightarrow> Inl e
      | Inr text \<Rightarrow> read_csv_text lib text parse_dates)"


definition get_sources :: "'df library \<Rightarrow> node \<Rightarrow> string \<Rightarrow> exn + 'df" where
  "get_sources lib root triggerID =
     (case format SOURCE_FILENAME
             [(''basepath'', BASEPATH), (''triggerID'', triggerID)] of
        Inl e \<Rightarrow> Inl e
      | Inr filename \<Rightarrow> read_csv lib root filename [1])"

section \<open>Request handlers\<close>

text \<open>
  The Python values handed to a response as its content, and what a handler gives back:
  a string \<^verbatim>\<open>f"ERROR: {e}"\<close> built from a caught exception, one of the three response
  classes, or an exception that no handler catches.
\<close>

datatype pyobj = PyStr string | PyList "pyobj list" | PyDict "(string \<times> pyobj) list"

datatype response =
    ErrorString exn
  | HTMLResponse string nat
  | StreamingResponse pyobj string "(string \<times> string) list"
  | FileResponse string
  | Raised exn

text \<open>
  A streaming response iterates over its content and sends each chunk, encoding a
  string chunk to bytes. Iterating over a list gives its elements, over a dictionary its
  keys, over a string its characters.
\<close>

fun py_iter :: "pyobj \<Rightarrow> pyobj list" where
  "py_iter (PyList xs) = xs"
| "py_iter (PyDict kvs) = map (\<lambda>kv. PyStr (fst kv)) kvs"
| "py_iter (PyStr s) = map (\<lambda>c. PyStr [c]) s"

fun encode_chunk :: "pyobj \<Rightarrow> exn + string" where
  "encode_chunk (PyStr s) = Inr s"
| "encode_chunk (PyList xs) = Inl (AttributeError ''encode'')"
| "encode_chunk (PyDict kvs) = Inl (AttributeError ''encode'')"

fun send_chunks :: "pyobj list \<Rightarrow> exn + string" where
  "send_chunks [] = Inr []"
| "send_chunks (chunk # chunks) =
     (case encode_chunk chunk of
        Inl e \<Rightarrow> Inl e
      | Inr bytes \<Rightarrow>
          (case send_chunks chunks of Inl e \<Rightarrow> Inl e | Inr rest \<Rightarrow> Inr (bytes @ rest)))"

definition stream_body :: "pyobj \<Rightarrow> exn + string" where
  "stream_body content = send_chunks (py_iter content)"

text \<open>The body that goes out for a response, where the framework produces one.\<close>

fun response_body :: "node \<Rightarrow> response \<Rightarrow> (exn + string) option" where
  "response_body root (HTMLResponse content status_code) = Some (Inr content)"
| "response_body root (StreamingResponse content media_type headers) =
     Some (stream_body content)"
| "response_body root (FileResponse path) = Some (open_read root path)"
| "response_body root (ErrorString e) = None"
| "response_body root (Raised e) = None"

text \<open>\<^verbatim>\<open>GET /triggers/\<close>\<close>

definition root_triggers :: "node \<Rightarrow> response" where
  "root_triggers root =
     (case get_triggers root of
        Inl e \<Rightarrow> ErrorString e
      | Inr trigger_ids \<Rightarrow>
          StreamingResponse
            (PyDict [(''trigger_ids'', PyList (map PyStr trigger_ids))])
            ''application/json''
            [(''Content-Disposition'', ''attachment;filename=trigger_IDs.json'')])"


text \<open>\<^verbatim>\<open>GET /sources/\<close>\<close>

definition root_sources :: "'df library \<Rightarrow> node \<Rightarrow> string \<Rightarrow> response" where
  "root_sources lib root triggerID =
     (case get_sources lib root triggerID of
        Inl e \<Rightarrow> ErrorString e
      | Inr source_df \<Rightarrow>
          (case to_json_table lib source_df of
             Inl e \<Rightarrow> Raised e
           | Inr result \<Rightarrow>
               (case json_loads lib result of
                  Inl e \<Rightarrow> Raised e
                | Inr parsed \<Rightarrow>
                    StreamingResponse (PyList [PyStr result]) ''text/json''
                      [(''Content-Disposition'',
                        ''attachment;filename=<'' @ triggerID @ ''_source.json'')])))"

text \<open>
  \<^verbatim>\<open>GET /plots/\<close>. The two error pages are two separate f-strings in the source and
  are kept apart here. \<open>repr_str\<close> is Python's \<^verbatim>\<open>repr\<close> of a string of letters,
  digits and underscores, and \<open>repr_list\<close> that of a list of such strings, which is how
  an f-string prints \<^verbatim>\<open>KNOWN_PLOT_TYPES\<close>.
\<close>

abbreviation (input) LF :: char where
  "LF \<equiv> CHR 0x0A"

definition plain_word :: "string \<Rightarrow> bool" where
  "plain_word s =
     list_all (\<lambda>c. c \<in> set ''abcdefghijklmnopqrstuvwxyzABCDEFGHIJKLMNOPQRSTUVWXYZ0123456789_'') s"







section \<open>Example file systems\<close>

text \<open>
  Under the base directory: a trigger \<^verbatim>\<open>2014p051675\<close> with its catalog and a directory
  \<^verbatim>\<open>empty_dir\<close> without one.
\<close>

definition under_base :: "(string \<times> node) list \<Rightarrow> node" where
  "under_base es = Dir [(''tmp'', Dir [(''outputs'', Dir [(''detections'', Dir es)])])]"

definition trigger_dir :: "string \<Rightarrow> (string \<times> node) list \<Rightarrow> string \<times> node" where
  "trigger_dir name es = (name, Dir [(name, Dir es)])"

definition catalog_text :: string where
  "catalog_text = ''id,time,magnitude'' @ [LF] @ ''1,2014-01-01T00:00:00,5.2'' @ [LF]"

definition scenario_fs :: node where
  "scenario_fs =
     under_base
       [trigger_dir ''2014p051675''
          [(''output_out'', Dir [(''catalog.csv'', File catalog_text)]),
           (''plotter_out'', Dir [(''focal_sphere_latest.png'', File ''PNG'')])],
        (''empty_dir'', Dir [])]"

text \<open>A hidden directory that holds a catalog in the expected place.\<close>

definition hidden_fs :: node where
  "hidden_fs =
     under_base
       [trigger_dir ''.hidden''
          [(''output_out'', Dir [(''catalog.csv'', File catalog_text)])]]"

text \<open>A file system without the base directory, and one where it is empty.\<close>

definition bare_fs :: node where
  "bare_fs = Dir [(''tmp'', Dir [])]"

definition empty_base_fs :: node where
  "empty_base_fs = under_base []"


section \<open>Path templates\<close>

lemma format_CATALOG_FILENAME:
  "format CATALOG_FILENAME [(''basepath'', b), (''triggerID'', t)] =
     Inr (resolved_catalog_path b t)"
  by (simp add: format_def CATALOG_FILENAME_def resolved_catalog_path_def cons_item_def)

lemma format_SOURCE_FILENAME:
  "format SOURCE_FILENAME [(''basepath'', b), (''triggerID'', t)] =
     Inr (resolved_source_path b t)"
  by (simp add: format_def SOURCE_FILENAME_def resolved_source_path_def cons_item_def)

lemma format_PLOT_FILENAME:
  "format PLOT_FILENAME [(''triggerID'', t), (''basepath'', b), (''plot_type'', k)] =
     Inr (resolved_plot_path b t k)"
  by (simp add: format_def PLOT_FILENAME_def resolved_plot_path_def cons_item_def)

lemma field_count_CATALOG_FILENAME: "field_count ''triggerID'' CATALOG_FILENAME = 2"
  by (simp add: field_count_def CATALOG_FILENAME_def cons_item_def)

lemma field_count_SOURCE_FILENAME: "field_count ''triggerID'' SOURCE_FILENAME = 2"
  by (simp add: field_count_def SOURCE_FILENAME_def cons_item_def)

lemma field_count_PLOT_FILENAME: "field_count ''triggerID'' PLOT_FILENAME = 2"
  by (simp add: field_count_def PLOT_FILENAME_def cons_item_def)

text \<open>
  C5. Resolving a path is verbatim substitution into the three fixed templates: for every
  base directory, trigger identifier and plot kind, whatever characters they hold
  (separators, \<^verbatim>\<open>..\<close>, braces), \<^verbatim>\<open>str.format\<close> succeeds and gives the base, a
  slash, the identifier, a slash, the identifier again and the fixed tail, unchanged and
  unescaped. No file system takes part, so nothing is checked for existence. Each
  template has exactly two \<^verbatim>\<open>{triggerID}\<close> fields.
\<close>

theorem path_resolution_verbatim:
  "format CATALOG_FILENAME [(''basepath'', base), (''triggerID'', triggerID)] =
     Inr (base @ ''/'' @ triggerID @ ''/'' @ triggerID @ ''/output_out/catalog.csv'')
   \<and> format SOURCE_FILENAME [(''basepath'', base), (''triggerID'', triggerID)] =
     Inr (base @ ''/'' @ triggerID @ ''/'' @ triggerID
          @ ''/plotter_out/output_metrics_summary_file.csv'')
   \<and> format PLOT_FILENAME
       [(''triggerID'', triggerID), (''basepath'', base), (''plot_type'', plot_type)] =
     Inr (base @ ''/'' @ triggerID @ ''/'' @ triggerID @ ''/plotter_out/''
          @ plot_type @ ''_latest.png'')
   \<and> field_count ''triggerID'' CATALOG_FILENAME = 2
   \<and> field_count ''triggerID'' SOURCE_FILENAME = 2
   \<and> field_count ''triggerID'' PLOT_FILENAME = 2"
proof -
  have c: "format CATALOG_FILENAME [(''basepath'', base), (''triggerID'', triggerID)] =
     Inr (base @ ''/'' @ triggerID @ ''/'' @ triggerID @ ''/output_out/catalog.csv'')"
    by (simp only: format_CATALOG_FILENAME resolved_catalog_path_def)
  have s: "format SOURCE_FILENAME [(''basepath'', base), (''triggerID'', triggerID)] =
     Inr (base @ ''/'' @ triggerID @ ''/'' @ triggerID
          @ ''/plotter_out/output_metrics_summary_file.csv'')"
    by (simp only: format_SOURCE_FILENAME resolved_source_path_def)
  have p: "format PLOT_FILENAME
       [(''triggerID'', triggerID), (''basepath'', base), (''plot_type'', plot_type)] =
     Inr (base @ ''/'' @ triggerID @ ''/'' @ triggerID @ ''/plotter_out/''
          @ plot_type @ ''_latest.png'')"
    by (simp only: format_PLOT_FILENAME resolved_plot_path_def)
  show ?thesis
    using c s p field_count_CATALOG_FILENAME field_count_SOURCE_FILENAME
      field_count_PLOT_FILENAME
    by blast
qed

section \<open>Path lookup\<close>

lemma split_on_nonempty: "split_on c xs \<noteq> []"
  by (induction xs) (auto split: list.splits)

lemma split_on_append:
  "split_on c (a @ c # b) = split_on c a @ split_on c b"
  by (induction a) (auto split: list.splits simp: split_on_nonempty)

lemma walk_append:
  "walk cur (xs @ ys) = (case walk cur xs of Inl e \<Rightarrow> Inl e | Inr cur' \<Rightarrow> walk cur' ys)"
  by (induction xs arbitrary: cur) (auto split: sum.splits)

lemma walk_from_file: "ys \<noteq> [] \<Longrightarrow> walk (anc, File c) ys = Inl ENOTDIR"
  by (cases ys) auto

text \<open>Whatever lies below a path that resolves, the path itself is a directory.\<close>

lemma stat_prefix_isdir:
  assumes "stat root (a @ CHR ''/'' # b) = Inr x"
  shows "isdir root a"
proof -
  let ?w = "walk ([], root) (split_on CHR ''/'' a)"
  from assms obtain cur
    where "walk ([], root) (split_on CHR ''/'' a @ split_on CHR ''/'' b) = Inr cur"
    by (auto simp: stat_def split_on_append split: sum.splits)
  then obtain anc n
    where p: "?w = Inr (anc, n)" and q: "walk (anc, n) (split_on CHR ''/'' b) = Inr cur"
    by (auto simp: walk_append split: sum.splits)
  have "\<exists>es. n = Dir es"
  proof (cases n)
    case (File c)
    with q show ?thesis by (simp add: walk_from_file split_on_nonempty)
  next
    case (Dir es)
    then show ?thesis by simp
  qed
  with p show ?thesis by (auto simp: isdir_def stat_def)
qed

lemma has_catalog_isdir:
  assumes "has_catalog root name"
  shows "isdir root (BASEPATH @ ''/'' @ name)"
proof -
  from assms obtain c
    where "stat root ((BASEPATH @ ''/'' @ name) @ CHR ''/'' # (name @ ''/output_out/catalog.csv''))
             = Inr (File c)"
    by (auto simp: has_catalog_def isfile_def resolved_catalog_path_def
             split: sum.splits node.splits)
  then show ?thesis by (rule stat_prefix_isdir)
qed

section \<open>Trigger discovery\<close>

lemma basename_join:
  assumes "CHR ''/'' \<notin> set name"
  shows "basename (a @ CHR ''/'' # name) = name"
proof -
  have "takeWhile (\<lambda>c. c \<noteq> CHR ''/'') (rev name @ CHR ''/'' # rev a) = rev name"
    using assms by (subst takeWhile_append2) auto
  then show ?thesis by (simp add: basename_def)
qed

lemma path_join_BASEPATH:
  "valid_name name \<Longrightarrow> path_join BASEPATH name = BASEPATH @ ''/'' @ name"
  by (cases name) (auto simp: path_join_def BASEPATH_def valid_name_def)

lemma basename_path_join_BASEPATH:
  "valid_name name \<Longrightarrow> basename (path_join BASEPATH name) = name"
  using basename_join [of name BASEPATH] by (simp add: path_join_BASEPATH valid_name_def)

lemma get_triggers_loop_eq:
  "get_triggers_loop root ds acc = Inr (acc @ filter (has_catalog root) (map basename ds))"
  by (induction ds arbitrary: acc)
     (simp_all add: format_CATALOG_FILENAME has_catalog_def Let_def)

lemma visible_eq: "visible = (\<lambda>x. \<not> ishidden x)"
  by (simp add: fun_eq_iff visible_def)

lemma glob1_listdir: "glob1 root d = filter visible (listdir root d)"
  by (simp add: glob1_def listdir_def visible_eq split: sum.splits)

lemma map_basename_glob_star:
  assumes "entry_names_valid root BASEPATH"
  shows "map basename (glob_star root BASEPATH) = glob1 root BASEPATH"
proof -
  have "\<forall>n \<in> set (glob1 root BASEPATH). valid_name n"
    using assms by (auto simp: entry_names_valid_def glob1_listdir list_all_iff)
  then have "map (\<lambda>n. basename (path_join BASEPATH n)) (glob1 root BASEPATH) =
             map (\<lambda>n. n) (glob1 root BASEPATH)"
    by (intro map_cong refl) (simp add: basename_path_join_BASEPATH)
  then show ?thesis by (simp add: glob_star_def comp_def)
qed

lemma get_triggers_eq:
  assumes "entry_names_valid root BASEPATH"
  shows "get_triggers root =
           Inr (filter (has_catalog root) (filter visible (listdir root BASEPATH)))"
  by (simp add: get_triggers_def get_triggers_loop_eq map_basename_glob_star [OF assms]
        glob1_listdir)

lemma get_triggers_total: "\<exists>ts. get_triggers root = Inr ts"
  by (simp add: get_triggers_def get_triggers_loop_eq)

lemma ListTriggers_spec_eq:
  "ListTriggers_spec root = filter (has_catalog root) (listdir root BASEPATH)"
proof -
  have "filter (\<lambda>n. isdir root (BASEPATH @ ''/'' @ n) \<and> has_catalog root n) xs =
        filter (has_catalog root) xs" for xs
    by (rule filter_cong) (auto dest: has_catalog_isdir)
  then show ?thesis
    by (simp add: ListTriggers_spec_def subdirectory_names_def)
qed

lemma get_triggers_visible_spec:
  assumes "entry_names_valid root BASEPATH"
  shows "get_triggers root = Inr (filter visible (ListTriggers_spec root))"
proof -
  have "filter (has_catalog root) (filter visible xs) =
        filter visible (filter (has_catalog root) xs)" for xs
    by (induction xs) auto
  then show ?thesis
    by (simp add: get_triggers_eq [OF assms] ListTriggers_spec_eq)
qed

lemma scenario_names_valid: "entry_names_valid scenario_fs BASEPATH"
  by code_simp

lemma hidden_names_valid: "entry_names_valid hidden_fs BASEPATH"
  by code_simp

lemma scenario_get_triggers: "get_triggers scenario_fs = Inr [''2014p051675'']"
  by code_simp

text \<open>
  C1, as stated, at a base directory whose only subdirectory is \<^verbatim>\<open>.hidden\<close> and holds a
  catalog in the expected place: the names the claim describes are \<^verbatim>\<open>[".hidden"]\<close>,
  and \<^verbatim>\<open>get_triggers\<close> returns the empty list.
\<close>

theorem get_triggers_hidden_counterexample:
  "entry_names_valid hidden_fs BASEPATH
   \<and> ListTriggers_spec hidden_fs = [''.hidden'']
   \<and> get_triggers hidden_fs = Inr []"
  by code_simp

text \<open>
  C1, amended. When the entry names of the base directory are file names (not empty, no
  slash), \<^verbatim>\<open>get_triggers\<close> returns, in listing order, exactly the immediate
  subdirectory names of the base directory that do not begin with a dot and for which
  \<^verbatim>\<open>{base}/{name}/{name}/output_out/catalog.csv\<close> is an existing file. With the
  subdirectories \<^verbatim>\<open>2014p051675\<close> (with catalog) and \<^verbatim>\<open>empty_dir\<close> (without) it returns
  \<^verbatim>\<open>["2014p051675"]\<close>.
\<close>

theorem get_triggers_visible_catalog_subdirectories:
  "(entry_names_valid root BASEPATH \<longrightarrow>
      get_triggers root = Inr (filter visible (ListTriggers_spec root)))
   \<and> get_triggers scenario_fs = Inr [''2014p051675'']"
  using get_triggers_visible_spec scenario_get_triggers by blast

theorem get_triggers_visible_catalog_subdirectories_witness:
  "entry_names_valid scenario_fs BASEPATH
   \<and> get_triggers scenario_fs = Inr (filter visible (ListTriggers_spec scenario_fs))"
  using get_triggers_visible_catalog_subdirectories [of scenario_fs] scenario_names_valid
  by blast

text \<open>
  C8. When the base directory does not exist (or is not a directory),
  \<^verbatim>\<open>get_triggers\<close> raises nothing and returns the empty list, the very result it gives
  for a base directory that exists and is empty.
\<close>

theorem get_triggers_missing_base:
  "\<not> isdir root BASEPATH \<Longrightarrow>
     get_triggers root = Inr [] \<and> get_triggers root = get_triggers empty_base_fs"
proof -
  assume "\<not> isdir root BASEPATH"
  then have "glob1 root BASEPATH = []"
    by (auto simp: isdir_def glob1_def scandir_def split: sum.splits node.splits)
  then have "get_triggers root = Inr []"
    by (simp add: get_triggers_def glob_star_def)
  moreover have "get_triggers empty_base_fs = Inr []"
    by code_simp
  ultimately show ?thesis by simp
qed

theorem get_triggers_missing_base_witness:
  "\<not> isdir bare_fs BASEPATH
   \<and> get_triggers bare_fs = Inr [] \<and> get_triggers bare_fs = get_triggers empty_base_fs"
proof -
  have h: "\<not> isdir bare_fs BASEPATH" by code_simp
  from get_triggers_missing_base [OF h] h show ?thesis by blast
qed

text \<open>
  C9. A name that begins with a dot is never in the result of \<^verbatim>\<open>get_triggers\<close>, even
  when it is a subdirectory of the base directory with its catalog in place: the glob
  pattern \<^verbatim>\<open>*\<close> leaves hidden entries out.
\<close>

theorem get_triggers_skips_hidden:
  "entry_names_valid root BASEPATH \<Longrightarrow> ishidden name \<Longrightarrow>
     \<exists>ts. get_triggers root = Inr ts \<and> name \<notin> set ts"
  by (simp add: get_triggers_eq visible_def)

theorem get_triggers_skips_hidden_witness:
  "entry_names_valid hidden_fs BASEPATH \<and> ishidden ''.hidden''
   \<and> ''.hidden'' \<in> set (subdirectory_names hidden_fs BASEPATH)
   \<and> has_catalog hidden_fs ''.hidden''
   \<and> (\<exists>ts. get_triggers hidden_fs = Inr ts \<and> ''.hidden'' \<notin> set ts)"
proof -
  have h: "ishidden ''.hidden''" by code_simp
  have s: "''.hidden'' \<in> set (subdirectory_names hidden_fs BASEPATH)" by code_simp
  have c: "has_catalog hidden_fs ''.hidden''" by code_simp
  from get_triggers_skips_hidden [OF hidden_names_valid h] hidden_names_valid h s c
  show ?thesis by blast
qed

section \<open>The catalog of a trigger\<close>






section \<open>Plots\<close>











lemma KNOWN_PLOT_TYPES_plain: "list_all plain_word KNOWN_PLOT_TYPES"
  by code_simp





section \<open>The trigger list\<close>

lemma stream_body_dict_key:
  "stream_body (PyDict [(key, v)]) = Inr key"
  by (simp add: stream_body_def)

text \<open>
  C7, evaluated on the code. The handler of \<^verbatim>\<open>/triggers/\<close> hands the dictionary
  \<^verbatim>\<open>{"trigger_ids": trigger_ids}\<close> itself to the streaming response, which iterates
  over it and so sends its one key: for every file system the body is the text
  \<^verbatim>\<open>trigger_ids\<close>. With the trigger \<^verbatim>\<open>2014p051675\<close> present, the scan finds it and
  the body still does not hold it.
\<close>

theorem triggers_body_is_dictionary_key:
  "response_body root (root_triggers root) = Some (Inr ''trigger_ids'')
   \<and> get_triggers scenario_fs = Inr [''2014p051675'']
   \<and> response_body scenario_fs (root_triggers scenario_fs) = Some (Inr ''trigger_ids'')
   \<and> \<not> sublist ''2014p051675'' ''trigger_ids''"
proof -
  have g: "response_body r (root_triggers r) = Some (Inr ''trigger_ids'')" for r
  proof -
    obtain ts where "get_triggers r = Inr ts" using get_triggers_total by blast
    then show ?thesis by (simp add: root_triggers_def stream_body_dict_key)
  qed
  have n: "\<not> sublist ''2014p051675'' ''trigger_ids''" by code_simp
  from g [of root] g [of scenario_fs] scenario_get_triggers n show ?thesis by blast
qed

end
